theory Spec2Isabelle
  imports Complex_Main
begin

text \<open>
  The blocks of \<open>wagtailseo/blocks.py\<close>: the multi-select field block, the open-hours
  block and the structured-data action block, whose values project their fields into
  JSON-LD dictionaries (\<open>struct_dict\<close>). The action block parses a free-form JSON text
  with \<open>json.loads\<close> and merges it with \<open>dict.update\<close>, so both library routines
  are part of the model.
\<close>

section \<open>Python values\<close>

text \<open>
  A Python \<open>str\<close> is a sequence of Unicode code points, so text is a list of naturals;
  \<open>str ''abc''\<close> writes a literal and \<open>ord CHR ''a''\<close> one code point.
\<close>

type_synonym pystr = "nat list"

abbreviation ord :: "char \<Rightarrow> nat" where
  "ord c \<equiv> of_char c"

definition str :: "string \<Rightarrow> pystr" where
  "str s = map ord s"

text \<open>The exceptions that the modelled code and the library calls it makes can raise.\<close>

datatype exn = JSONDecodeError | TypeError | ValueError | ValidationError | RecursionError

text \<open>A \<open>datetime.time\<close>, the value of a \<open>TimeBlock\<close>.\<close>

record pytime =
  hour :: nat
  minute :: nat
  second :: nat
  microsecond :: nat

text \<open>
  A Python \<open>float\<close> read from a JSON number is kept as the exact decimal value of its
  literal; rounding to binary64, overflow to infinity and the sign of zero are not
  modelled. The three constants are the ones \<open>json\<close> accepts beside numbers.
\<close>

datatype pyfloat = Finite rat | PosInf | NegInf | NaN

text \<open>Hashable values (dictionary keys), and values in general.\<close>

datatype key = KNone | KBool bool | KInt int | KFloat pyfloat | KStr pystr | KTime pytime

datatype pyval =
    PNone
  | PBool bool
  | PInt int
  | PFloat pyfloat
  | PStr pystr
  | PTime pytime
  | PList "pyval list"
  | PDict "(key \<times> pyval) list"

type_synonym dict = "(key \<times> pyval) list"

fun of_key :: "key \<Rightarrow> pyval" where
  "of_key KNone = PNone"
| "of_key (KBool b) = PBool b"
| "of_key (KInt i) = PInt i"
| "of_key (KFloat f) = PFloat f"
| "of_key (KStr s) = PStr s"
| "of_key (KTime t) = PTime t"

text \<open>\<open>hash(x)\<close>: lists and dictionaries are unhashable (\<open>None\<close> here, a TypeError there).\<close>

fun to_key :: "pyval \<Rightarrow> key option" where
  "to_key PNone = Some KNone"
| "to_key (PBool b) = Some (KBool b)"
| "to_key (PInt i) = Some (KInt i)"
| "to_key (PFloat f) = Some (KFloat f)"
| "to_key (PStr s) = Some (KStr s)"
| "to_key (PTime t) = Some (KTime t)"
| "to_key (PList xs) = None"
| "to_key (PDict d) = None"

section \<open>Dictionaries\<close>

text \<open>
  A \<open>dict\<close> is an association list in insertion order. Two keys are the same key when
  Python's \<open>==\<close> holds between them: \<open>True == 1 == 1.0\<close> and \<open>False == 0 == 0.0\<close>.
\<close>

fun key_norm :: "key \<Rightarrow> key" where
  "key_norm (KBool b) = KFloat (Finite (if b then 1 else 0))"
| "key_norm (KInt i) = KFloat (Finite (of_int i))"
| "key_norm k = k"

definition key_eq :: "key \<Rightarrow> key \<Rightarrow> bool" where
  "key_eq k k' = (key_norm k = key_norm k')"

text \<open>\<open>d[k] = v\<close>: an existing key keeps its place (and its key object), a new one is appended.\<close>

fun dict_set :: "dict \<Rightarrow> key \<Rightarrow> pyval \<Rightarrow> dict" where
  "dict_set [] k v = [(k, v)]"
| "dict_set ((k', v') # d) k v =
     (if key_eq k' k then (k', v) # d else (k', v') # dict_set d k v)"

text \<open>\<open>d.get(k)\<close>.\<close>

fun dict_get :: "dict \<Rightarrow> key \<Rightarrow> pyval option" where
  "dict_get [] k = None"
| "dict_get ((k', v') # d) k = (if key_eq k' k then Some v' else dict_get d k)"

text \<open>\<open>PyDict_Merge(d, other, override=1)\<close>: every item of \<open>other\<close>, in order, is stored in \<open>d\<close>.\<close>

fun dict_merge :: "dict \<Rightarrow> dict \<Rightarrow> dict" where
  "dict_merge d [] = d"
| "dict_merge d ((k, v) # other) = dict_merge (dict_set d k v) other"

text \<open>
  Iterating a value (\<open>PyObject_GetIter\<close>, \<open>PySequence_Fast\<close>): a list gives its elements,
  a string its characters as one-character strings, a dictionary its keys; nothing else that
  occurs here is iterable.
\<close>

fun sequence_fast :: "pyval \<Rightarrow> pyval list option" where
  "sequence_fast (PList xs) = Some xs"
| "sequence_fast (PStr s) = Some (map (\<lambda>c. PStr [c]) s)"
| "sequence_fast (PDict d) = Some (map (\<lambda>(k, v). of_key k) d)"
| "sequence_fast x = None"

text \<open>
  \<open>PyDict_MergeFromSeq2(d, seq2, override=1)\<close>: each element of the sequence must itself be a
  sequence of length 2, a key and a value. The dictionary is changed in place, element by
  element, so the function returns the dictionary as it stands together with the exception
  that stopped the loop, if any.
\<close>

fun merge_from_seq2 :: "dict \<Rightarrow> pyval list \<Rightarrow> dict \<times> exn option" where
  "merge_from_seq2 d [] = (d, None)"
| "merge_from_seq2 d (item # items) =
     (case sequence_fast item of
        None \<Rightarrow> (d, Some TypeError)
      | Some fast \<Rightarrow>
          (case fast of
             [k, v] \<Rightarrow>
               (case to_key k of
                  None \<Rightarrow> (d, Some TypeError)
                | Some k' \<Rightarrow> merge_from_seq2 (dict_set d k' v) items)
           | _ \<Rightarrow> (d, Some ValueError)))"

text \<open>
  \<open>d.update(arg)\<close> with one positional argument: a dictionary is merged; anything else is
  iterated as a sequence of pairs.
\<close>

fun dict_update :: "dict \<Rightarrow> pyval \<Rightarrow> dict \<times> exn option" where
  "dict_update d (PDict other) = (dict_merge d other, None)"
| "dict_update d arg =
     (case sequence_fast arg of
        None \<Rightarrow> (d, Some TypeError)
      | Some items \<Rightarrow> merge_from_seq2 d items)"

section \<open>The JSON decoder\<close>

text \<open>
  \<open>json.loads\<close> is the standard library's decoder with its default settings
  (strict, no hooks), following the scanner in \<open>Modules/_json.c\<close>. Every syntax error is a
  \<open>JSONDecodeError\<close>; positions and messages are not modelled, nor are the interpreter's
  limits on nesting depth and on the number of digits of an integer.
\<close>

abbreviation QUOTE :: nat where "QUOTE \<equiv> 0x22"
abbreviation BACKSLASH :: nat where "BACKSLASH \<equiv> 0x5C"

definition is_ws :: "nat \<Rightarrow> bool" where
  "is_ws c = (c = 0x20 \<or> c = 0x09 \<or> c = 0x0A \<or> c = 0x0D)"

definition skip_ws :: "pystr \<Rightarrow> pystr" where
  "skip_ws s = dropWhile is_ws s"

definition starts_with :: "pystr \<Rightarrow> pystr \<Rightarrow> bool" where
  "starts_with p s = (take (length p) s = p)"

definition is_digit :: "nat \<Rightarrow> bool" where
  "is_digit c = (ord CHR ''0'' \<le> c \<and> c \<le> ord CHR ''9'')"

definition digits_val :: "pystr \<Rightarrow> nat" where
  "digits_val ds = foldl (\<lambda>a c. 10 * a + (c - ord CHR ''0'')) 0 ds"

definition hex_val :: "nat \<Rightarrow> nat option" where
  "hex_val c =
     (if ord CHR ''0'' \<le> c \<and> c \<le> ord CHR ''9'' then Some (c - ord CHR ''0'')
      else if ord CHR ''a'' \<le> c \<and> c \<le> ord CHR ''f'' then Some (c - ord CHR ''a'' + 10)
      else if ord CHR ''A'' \<le> c \<and> c \<le> ord CHR ''F'' then Some (c - ord CHR ''A'' + 10)
      else None)"

text \<open>Four hexadecimal digits of a \<open>\uXXXX\<close> escape.\<close>

fun hex4 :: "pystr \<Rightarrow> nat option" where
  "hex4 [a, b, c, d] =
     (case (hex_val a, hex_val b, hex_val c, hex_val d) of
        (Some x, Some y, Some z, Some w) \<Rightarrow> Some (((x * 16 + y) * 16 + z) * 16 + w)
      | _ \<Rightarrow> None)"
| "hex4 s = None"

definition unescape :: "nat \<Rightarrow> nat option" where
  "unescape e =
     (if e = QUOTE \<or> e = BACKSLASH \<or> e = ord CHR ''/'' then Some e
      else if e = ord CHR ''b'' then Some 0x08
      else if e = ord CHR ''f'' then Some 0x0C
      else if e = ord CHR ''n'' then Some 0x0A
      else if e = ord CHR ''r'' then Some 0x0D
      else if e = ord CHR ''t'' then Some 0x09
      else None)"

definition is_high_surrogate :: "nat \<Rightarrow> bool" where
  "is_high_surrogate u = (0xD800 \<le> u \<and> u \<le> 0xDBFF)"

definition is_low_surrogate :: "nat \<Rightarrow> bool" where
  "is_low_surrogate u = (0xDC00 \<le> u \<and> u \<le> 0xDFFF)"

definition join_surrogates :: "nat \<Rightarrow> nat \<Rightarrow> nat" where
  "join_surrogates u u2 = 0x10000 + (u - 0xD800) * 0x400 + (u2 - 0xDC00)"

text \<open>
  \<open>scanstring\<close>, entered after the opening quote: the decoded string so far and the text
  still to read. It returns the string and the text after the closing quote.
\<close>

function scanstring :: "pystr \<Rightarrow> pystr \<Rightarrow> exn + (pystr \<times> pystr)" where
  "scanstring acc [] = Inl JSONDecodeError"
| "scanstring acc (c # s) =
     (if c = QUOTE then Inr (acc, s)
      else if c \<le> 0x1F then Inl JSONDecodeError
      else if c \<noteq> BACKSLASH then scanstring (acc @ [c]) s
      else
        (case s of
           [] \<Rightarrow> Inl JSONDecodeError
         | e # s1 \<Rightarrow>
             if e \<noteq> ord CHR ''u'' then
               (case unescape e of
                  None \<Rightarrow> Inl JSONDecodeError
                | Some x \<Rightarrow> scanstring (acc @ [x]) s1)
             else
               (case hex4 (take 4 s1) of
                  None \<Rightarrow> Inl JSONDecodeError
                | Some u \<Rightarrow>
                    if is_high_surrogate u \<and> starts_with [BACKSLASH, ord CHR ''u''] (drop 4 s1) then
                      (case hex4 (take 4 (drop 6 s1)) of
                         None \<Rightarrow> Inl JSONDecodeError
                       | Some u2 \<Rightarrow>
                           if is_low_surrogate u2
                           then scanstring (acc @ [join_surrogates u u2]) (drop 10 s1)
                           else scanstring (acc @ [u]) (drop 4 s1))
                    else scanstring (acc @ [u]) (drop 4 s1))))"
  by pat_completeness auto
termination
  by (relation "measure (\<lambda>(acc, s). length s)") auto

text \<open>
  The exponent of a number, \<open>[eE][-+]?[0-9]+\<close>: its value and the text after it, or
  nothing (the scanner backtracks) when no digit follows.
\<close>

definition match_exponent :: "pystr \<Rightarrow> (int \<times> pystr) option" where
  "match_exponent s =
     (case s of
        [] \<Rightarrow> None
      | e # r \<Rightarrow>
          if e \<noteq> ord CHR ''e'' \<and> e \<noteq> ord CHR ''E'' then None
          else
            let neg = starts_with (str ''-'') r;
                r1 = (if neg \<or> starts_with (str ''+'') r then drop 1 r else r);
                ds = takeWhile is_digit r1
            in if ds = [] then None
               else Some (if neg then - int (digits_val ds) else int (digits_val ds),
                          dropWhile is_digit r1))"

text \<open>The fraction of a number, \<open>\.[0-9]+\<close>: its digits and the text after them.\<close>

definition match_fraction :: "pystr \<Rightarrow> (pystr \<times> pystr) option" where
  "match_fraction s =
     (case s of
        d # f # r \<Rightarrow>
          if d = ord CHR ''.'' \<and> is_digit f
          then Some (takeWhile is_digit (f # r), dropWhile is_digit (f # r))
          else None
      | _ \<Rightarrow> None)"

text \<open>The value \<open>m * 10 ^ e\<close> of a decimal literal.\<close>

definition decimal :: "int \<Rightarrow> int \<Rightarrow> rat" where
  "decimal m e = (if 0 \<le> e then of_int m * 10 ^ nat e else of_int m / 10 ^ nat (- e))"

text \<open>
  \<open>_match_number\<close>: \<open>-?(0|[1-9][0-9]*)(\.[0-9]+)?([eE][-+]?[0-9]+)?\<close>. A literal with a
  fraction or an exponent is a float, any other an int.
\<close>

definition match_number :: "pystr \<Rightarrow> (pyval \<times> pystr) option" where
  "match_number s =
     (let neg = starts_with (str ''-'') s;
          s1 = (if neg then drop 1 s else s)
      in case s1 of
           [] \<Rightarrow> None
         | c # r \<Rightarrow>
             if \<not> is_digit c then None
             else
               let ip = (if c = ord CHR ''0'' then [c] else c # takeWhile is_digit r);
                   s2 = drop (length ip) s1;
                   (fp, s3) = (case match_fraction s2 of None \<Rightarrow> ([], s2) | Some x \<Rightarrow> x);
                   ex = match_exponent s3;
                   s4 = (case ex of None \<Rightarrow> s3 | Some (e, r') \<Rightarrow> r');
                   m = int (digits_val (ip @ fp));
                   sm = (if neg then - m else m)
               in if fp = [] \<and> ex = None then Some (PInt sm, s4)
                  else Some (PFloat (Finite (decimal sm
                               ((case ex of None \<Rightarrow> 0 | Some (e, r') \<Rightarrow> e) - int (length fp)))), s4))"

text \<open>
  \<open>scan_once\<close> reads one JSON value at the head of the text and returns it with the text
  that follows. \<open>parse_object\<close> and \<open>parse_array\<close> are the loops of
  \<open>_parse_object_unicode\<close> and \<open>_parse_array_unicode\<close>, entered where a member (an
  element) must start, with the dictionary (the list) built so far. The first argument
  bounds the number of calls: reading a value and entering a loop take one each, so
  \<open>json_loads\<close> starts with more than twice the length of the text, which is never
  used up (\<open>json_loads_fuel\<close> below).
\<close>

fun scan_once :: "nat \<Rightarrow> pystr \<Rightarrow> exn + (pyval \<times> pystr)"
  and parse_object :: "nat \<Rightarrow> dict \<Rightarrow> pystr \<Rightarrow> exn + (pyval \<times> pystr)"
  and parse_array :: "nat \<Rightarrow> pyval list \<Rightarrow> pystr \<Rightarrow> exn + (pyval \<times> pystr)" where
  "scan_once 0 s = Inl RecursionError"
| "scan_once (Suc n) [] = Inl JSONDecodeError"
| "scan_once (Suc n) (c # r) =
     (if c = QUOTE then
        (case scanstring [] r of Inl e \<Rightarrow> Inl e | Inr (x, r') \<Rightarrow> Inr (PStr x, r'))
      else if c = ord CHR ''{'' then
        (if starts_with (str ''}'') (skip_ws r) then Inr (PDict [], drop 1 (skip_ws r))
         else parse_object n [] (skip_ws r))
      else if c = ord CHR ''['' then
        (if starts_with (str '']'') (skip_ws r) then Inr (PList [], drop 1 (skip_ws r))
         else parse_array n [] (skip_ws r))
      else if starts_with (str ''null'') (c # r) then Inr (PNone, drop 4 (c # r))
      else if starts_with (str ''true'') (c # r) then Inr (PBool True, drop 4 (c # r))
      else if starts_with (str ''false'') (c # r) then Inr (PBool False, drop 5 (c # r))
      else if starts_with (str ''NaN'') (c # r) then Inr (PFloat NaN, drop 3 (c # r))
      else if starts_with (str ''Infinity'') (c # r) then Inr (PFloat PosInf, drop 8 (c # r))
      else if starts_with (str ''-Infinity'') (c # r) then Inr (PFloat NegInf, drop 9 (c # r))
      else (case match_number (c # r) of None \<Rightarrow> Inl JSONDecodeError | Some x \<Rightarrow> Inr x))"
| "parse_object 0 acc s = Inl RecursionError"
| "parse_object (Suc n) acc s =
     (if \<not> starts_with [QUOTE] s then Inl JSONDecodeError
      else
        (case scanstring [] (drop 1 s) of
           Inl e \<Rightarrow> Inl e
         | Inr (k, s1) \<Rightarrow>
             if \<not> starts_with (str '':'') (skip_ws s1) then Inl JSONDecodeError
             else
               (case scan_once n (skip_ws (drop 1 (skip_ws s1))) of
                  Inl e \<Rightarrow> Inl e
                | Inr (v, s2) \<Rightarrow>
                    if starts_with (str ''}'') (skip_ws s2)
                    then Inr (PDict (dict_set acc (KStr k) v), drop 1 (skip_ws s2))
                    else if \<not> starts_with (str '','') (skip_ws s2) then Inl JSONDecodeError
                    else parse_object n (dict_set acc (KStr k) v)
                           (skip_ws (drop 1 (skip_ws s2))))))"
| "parse_array 0 acc s = Inl RecursionError"
| "parse_array (Suc n) acc s =
     (case scan_once n s of
        Inl e \<Rightarrow> Inl e
      | Inr (v, s1) \<Rightarrow>
          if starts_with (str '']'') (skip_ws s1)
          then Inr (PList (acc @ [v]), drop 1 (skip_ws s1))
          else if \<not> starts_with (str '','') (skip_ws s1) then Inl JSONDecodeError
          else parse_array n (acc @ [v]) (skip_ws (drop 1 (skip_ws s1))))"

text \<open>The bound that \<open>json_loads\<close> starts with: \<open>2 * length s + 1\<close>.\<close>

fun fuel :: "pystr \<Rightarrow> nat" where
  "fuel [] = Suc 0"
| "fuel (c # s) = Suc (Suc (fuel s))"

text \<open>
  \<open>json.loads(s)\<close> for a \<open>str\<close>: a leading byte order mark is refused, one value is
  read between optional whitespace, and anything after it is an error (\<open>Extra data\<close>).
\<close>

definition json_loads :: "pystr \<Rightarrow> exn + pyval" where
  "json_loads s =
     (if starts_with [0xFEFF] s then Inl JSONDecodeError
      else
        (case scan_once (fuel s) (skip_ws s) of
           Inl e \<Rightarrow> Inl e
         | Inr (obj, r) \<Rightarrow> if skip_ws r = [] then Inr obj else Inl JSONDecodeError))"

section \<open>The blocks\<close>

subsection \<open>MultiSelectBlock\<close>

text \<open>
  \<open>MultiSelectBlock.__init__\<close> builds a \<open>forms.MultipleChoiceField\<close> from its
  \<open>required\<close> flag and its choices, pairs of a stored token and a label (the help text and
  the widget do not bear on validation).
\<close>

record multiple_choice_field =
  required :: bool
  choices :: "(pystr \<times> pystr) list"

definition MultiSelectBlock :: "bool \<Rightarrow> (pystr \<times> pystr) list \<Rightarrow> multiple_choice_field" where
  "MultiSelectBlock req chs = \<lparr>required = req, choices = chs\<rparr>"

text \<open>
  Modelled from the spec: whether a token is in the configured choice enumeration. The
  form framework's field class (\<open>forms.MultipleChoiceField\<close>), whose routine this is, is
  not among this repository's sources.
\<close>

definition valid_value :: "multiple_choice_field \<Rightarrow> pystr \<Rightarrow> bool" where
  "valid_value f tok = list_ex (\<lambda>(k, label). tok = k) (choices f)"

text \<open>
  Modelled from the spec: the check of the selected tokens, one after the other, failing with
  a ValidationError at the first token outside the choice enumeration (the framework's
  routine, not among this repository's sources).
\<close>

fun validate_tokens :: "multiple_choice_field \<Rightarrow> pystr list \<Rightarrow> exn + unit" where
  "validate_tokens f [] = Inr ()"
| "validate_tokens f (tok # toks) =
     (if \<not> valid_value f tok then Inl ValidationError else validate_tokens f toks)"

text \<open>
  Modelled from the spec: \<open>validate(selection)\<close> of the multi-choice field, the framework's
  \<open>MultipleChoiceField.validate\<close>, which is not among this repository's sources. It fails
  with a ValidationError if \<open>required\<close> is true and the selection is empty, or if any
  selected token is outside the configured choice enumeration.
\<close>

definition validate :: "multiple_choice_field \<Rightarrow> pystr list \<Rightarrow> exn + unit" where
  "validate f selection =
     (if required f \<and> selection = [] then Inl ValidationError
      else validate_tokens f selection)"

subsection \<open>OpenHoursBlock\<close>

text \<open>
  The \<open>days\<close> field of \<open>OpenHoursBlock\<close>: required, the seven weekday names. A choice
  is a stored token and a label; the label, which the source translates for the editor, is
  written here as the name itself.
\<close>

definition weekdays :: "pystr list" where
  "weekdays = map str [''Monday'', ''Tuesday'', ''Wednesday'', ''Thursday'', ''Friday'',
                       ''Saturday'', ''Sunday'']"

definition days_field :: multiple_choice_field where
  "days_field = MultiSelectBlock True (map (\<lambda>d. (d, d)) weekdays)"

text \<open>An \<open>OpenHoursValue\<close>: the selected days and two times of day.\<close>

record open_hours_value =
  days :: "pystr list"
  start_time :: pytime
  end_time :: pytime

text \<open>\<open>OpenHoursValue.struct_dict\<close>.\<close>

definition open_hours_struct_dict :: "open_hours_value \<Rightarrow> dict" where
  "open_hours_struct_dict v =
     [(KStr (str ''@type''), PStr (str ''OpeningHoursSpecification'')),
      (KStr (str ''dayOfWeek''), PList (map PStr (days v))),
      (KStr (str ''opens''), PTime (start_time v)),
      (KStr (str ''closes''), PTime (end_time v))]"

text \<open>
  The format the comments beside \<open>opens\<close> and \<open>closes\<close> name (the template filter
  \<open>date:'H:i'\<close>): two digits of the hour, a colon, two digits of the minute.
\<close>

definition two_digits :: "nat \<Rightarrow> pystr" where
  "two_digits n = [ord CHR ''0'' + (n div 10) mod 10, ord CHR ''0'' + n mod 10]"

definition format_H_i :: "pytime \<Rightarrow> pystr" where
  "format_H_i t = two_digits (hour t) @ str '':'' @ two_digits (minute t)"

subsection \<open>StructuredDataActionBlock\<close>

text \<open>
  A \<open>StructuredDataActionValue\<close>. The fields declared with \<open>required=False\<close> may hold
  \<open>None\<close> as well as a string.
\<close>

record action_value =
  action_type :: pystr
  target :: pystr
  query :: "pystr option"
  language :: pystr
  result_type :: "pystr option"
  result_name :: "pystr option"
  extra_json :: "pystr option"

text \<open>The value of an optional field, and its truth value in an \<open>if\<close>.\<close>

fun opt_val :: "pystr option \<Rightarrow> pyval" where
  "opt_val None = PNone"
| "opt_val (Some s) = PStr s"

fun truthy :: "pystr option \<Rightarrow> bool" where
  "truthy None = False"
| "truthy (Some s) = (s \<noteq> [])"

text \<open>The text of an optional field, read only where the field is truthy.\<close>

fun text_of :: "pystr option \<Rightarrow> pystr" where
  "text_of None = []"
| "text_of (Some s) = s"

definition action_platforms :: "pyval list" where
  "action_platforms =
     [PStr (str ''http://schema.org/DesktopWebPlatform''),
      PStr (str ''http://schema.org/IOSPlatform''),
      PStr (str ''http://schema.org/AndroidPlatform'')]"

text \<open>The dictionary literal of each branch on \<open>action_type\<close>.\<close>

definition base_dict :: "action_value \<Rightarrow> dict" where
  "base_dict v =
     (if action_type v = str ''SearchAction'' then
        [(KStr (str ''@type''), PStr (action_type v)),
         (KStr (str ''target''), PStr (target v)),
         (KStr (str ''query''), opt_val (query v))]
      else
        [(KStr (str ''@type''), PStr (action_type v)),
         (KStr (str ''target''), PDict
            [(KStr (str ''@type''), PStr (str ''EntryPoint'')),
             (KStr (str ''urlTemplate''), PStr (target v)),
             (KStr (str ''inLanguage''), PStr (language v)),
             (KStr (str ''actionPlatform''), PList action_platforms)])])"

text \<open>The argument of the first \<open>update\<close>.\<close>

definition result_dict :: "action_value \<Rightarrow> pyval" where
  "result_dict v =
     PDict [(KStr (str ''result''), PDict
              [(KStr (str ''@type''), opt_val (result_type v)),
               (KStr (str ''name''), opt_val (result_name v))])]"

text \<open>
  \<open>StructuredDataActionValue.struct_dict\<close>. \<open>sd_dict\<close> is a local dictionary that the two
  \<open>update\<close> calls change in place; an exception of \<open>json.loads\<close> or of \<open>update\<close> leaves
  the function, and the dictionary is returned only when the last statement is reached.
\<close>

definition struct_dict :: "action_value \<Rightarrow> exn + dict" where
  "struct_dict v =
     (let sd_dict = base_dict v;
          (sd_dict, raised) =
            (if truthy (result_type v) then dict_update sd_dict (result_dict v)
             else (sd_dict, None))
      in case raised of
           Some e \<Rightarrow> Inl e
         | None \<Rightarrow>
             if truthy (extra_json v) then
               (case json_loads (text_of (extra_json v)) of
                  Inl e \<Rightarrow> Inl e
                | Inr parsed \<Rightarrow>
                    (case dict_update sd_dict parsed of
                       (sd_dict, Some e) \<Rightarrow> Inl e
                     | (sd_dict, None) \<Rightarrow> Inr sd_dict))
             else Inr sd_dict)"

section \<open>Notions used to state the properties\<close>

text \<open>
  The dictionary after the first \<open>update\<close>: the literal of the branch taken, with the
  \<open>result\<close> item stored when \<open>result_type\<close> is truthy.
\<close>

definition steps12 :: "action_value \<Rightarrow> dict" where
  "steps12 v =
     (if truthy (result_type v) then
        dict_set (base_dict v) (KStr (str ''result''))
          (PDict [(KStr (str ''@type''), opt_val (result_type v)),
                  (KStr (str ''name''), opt_val (result_name v))])
      else base_dict v)"

text \<open>
  What \<open>update\<close> takes without raising, said without running it: a dictionary, or an
  iterable whose elements are all sequences of length 2 with a hashable first component.
\<close>

definition pair_like :: "pyval \<Rightarrow> bool" where
  "pair_like item =
     (case sequence_fast item of
        Some [k, v] \<Rightarrow> to_key k \<noteq> None
      | _ \<Rightarrow> False)"

definition update_accepts :: "pyval \<Rightarrow> bool" where
  "update_accepts p =
     (case p of
        PDict other \<Rightarrow> True
      | _ \<Rightarrow> (case sequence_fast p of None \<Rightarrow> False | Some items \<Rightarrow> list_all pair_like items))"

text \<open>The items that an \<open>update\<close> with argument \<open>p\<close> stores: what it makes of an empty dictionary.\<close>

definition overlay_of :: "pyval \<Rightarrow> dict" where
  "overlay_of p = fst (dict_update [] p)"

text \<open>\<open>extra_json\<close> is read, parses, and its value brings the key \<open>k\<close>.\<close>

definition supplies :: "action_value \<Rightarrow> key \<Rightarrow> bool" where
  "supplies v k =
     (truthy (extra_json v) \<and>
      (case json_loads (text_of (extra_json v)) of
         Inl e \<Rightarrow> False
       | Inr p \<Rightarrow> dict_get (overlay_of p) k \<noteq> None))"


text \<open>A dictionary whose keys are strings, no two of them equal: what a JSON object decodes to.\<close>

definition str_keys :: "dict \<Rightarrow> bool" where
  "str_keys d =
     (list_all (\<lambda>(k, v). case k of KStr s \<Rightarrow> True | _ \<Rightarrow> False) d \<and> distinct (map fst d))"

section \<open>Facts about dictionaries\<close>

lemma str_eq_iff [simp]: "str a = str b \<longleftrightarrow> a = b"
  unfolding str_def by (simp add: inj_map_eq_map inj_on_def)

lemma key_eq_refl [simp]: "key_eq k k"
  by (simp add: key_eq_def)

lemma key_eq_KStr [simp]: "key_eq (KStr a) k \<longleftrightarrow> k = KStr a"
  by (cases k) (auto simp: key_eq_def)

lemma key_eq_KStr2 [simp]: "key_eq k (KStr a) \<longleftrightarrow> k = KStr a"
  by (cases k) (auto simp: key_eq_def)

lemma dict_get_dict_set:
  "dict_get (dict_set d k v) k' = (if key_eq k k' then Some v else dict_get d k')"
  by (induction d) (auto simp: key_eq_def)

lemma dict_get_append:
  "dict_get (d @ d') k = (case dict_get d k of Some x \<Rightarrow> Some x | None \<Rightarrow> dict_get d' k)"
  by (induction d) auto

lemma dict_get_dict_merge:
  "dict_get (dict_merge d other) k =
     (case dict_get (dict_merge [] other) k of Some x \<Rightarrow> Some x | None \<Rightarrow> dict_get d k)"
proof -
  have last_wins: "dict_get (dict_merge d other) k =
      (case dict_get (rev other) k of Some x \<Rightarrow> Some x | None \<Rightarrow> dict_get d k)" for d
  proof (induction other arbitrary: d)
    case Nil
    show ?case by simp
  next
    case (Cons kv other)
    obtain k' v where kv: "kv = (k', v)" by (cases kv)
    show ?case
      by (simp add: kv Cons.IH dict_get_dict_set dict_get_append split: option.splits)
  qed
  show ?thesis
    by (simp add: last_wins [of d] last_wins [of "[]"] split: option.splits)
qed

section \<open>Facts about the decoder\<close>













text \<open>A decoded object has string keys, each once; the decoder raises nothing but JSONDecodeError.\<close>

lemma str_keys_Nil [simp]: "str_keys []"
  by (simp add: str_keys_def)

lemma dict_set_keys:
  "(k', v') \<in> set (dict_set d k v) \<Longrightarrow> k' = k \<or> k' \<in> fst ` set d"
  by (induction d) (force split: if_splits)+

lemma dict_set_str_keys: "str_keys d \<Longrightarrow> str_keys (dict_set d (KStr k) v)"
proof (induction d)
  case Nil
  show ?case by (simp add: str_keys_def)
next
  case (Cons kv d)
  obtain k' v' where kv: "kv = (k', v')" by (cases kv)
  from Cons.prems have d: "str_keys d" and k': "k' \<notin> fst ` set d"
    and s: "case k' of KStr s \<Rightarrow> True | _ \<Rightarrow> False"
    by (auto simp: str_keys_def kv)
  show ?case
  proof (cases "k' = KStr k")
    case True
    with Cons.prems show ?thesis by (auto simp: kv str_keys_def)
  next
    case False
    from dict_set_keys [of k' _ d "KStr k" v] k' False
    have "k' \<notin> fst ` set (dict_set d (KStr k) v)" by auto
    with Cons.IH [OF d] s False show ?thesis
      by (auto simp: kv str_keys_def)
  qed
qed

lemma str_keys_dict_get: "str_keys d \<Longrightarrow> dict_get d k = map_of d k"
  by (induction d) (auto simp: str_keys_def split: key.splits)

lemma str_keys_rev: "str_keys d \<Longrightarrow> str_keys (rev d)"
  by (simp add: str_keys_def rev_map [symmetric])

lemma map_of_rev_distinct: "distinct (map fst xs) \<Longrightarrow> map_of (rev xs) = map_of xs"
  by (induction xs) (auto 4 4 simp: map_add_def fun_eq_iff split: option.splits intro: rev_image_eqI)

lemma dict_merge_str_keys:
  assumes "str_keys d"
  shows "dict_get (dict_merge [] d) k = dict_get d k"
proof -
  have "dict_get (dict_merge [] d) k = dict_get (rev d) k"
  proof -
    have "dict_get (dict_merge d0 d) k =
        (case dict_get (rev d) k of Some x \<Rightarrow> Some x | None \<Rightarrow> dict_get d0 k)" for d0
    proof (induction d arbitrary: d0)
      case Nil
      show ?case by simp
    next
      case (Cons kv d)
      obtain k' v where kv: "kv = (k', v)" by (cases kv)
      show ?case
        by (simp add: kv Cons.IH dict_get_dict_set dict_get_append split: option.splits)
    qed
    from this [of "[]"] show ?thesis by (simp split: option.splits)
  qed
  also have "\<dots> = map_of (rev d) k"
    using assms by (simp add: str_keys_dict_get str_keys_rev)
  also have "\<dots> = map_of d k"
    using assms by (simp add: str_keys_def map_of_rev_distinct)
  also have "\<dots> = dict_get d k"
    using assms by (simp add: str_keys_dict_get)
  finally show ?thesis .
qed

lemma parse_object_obj:
  "parse_object n d s = Inr (v, r) \<Longrightarrow> str_keys d \<Longrightarrow> \<exists>d'. v = PDict d' \<and> str_keys d'"
proof (induction n arbitrary: d s)
  case 0
  then show ?case by simp
next
  case (Suc n)
  from Suc.prems show ?case
    by (auto split: if_splits sum.splits dest!: Suc.IH simp: dict_set_str_keys)
qed

lemma parse_array_list:
  "parse_array n xs s = Inr (v, r) \<Longrightarrow> \<exists>ys. v = PList ys"
proof (induction n arbitrary: xs s)
  case 0
  then show ?case by simp
next
  case (Suc n)
  from Suc.prems show ?case
    by (auto split: if_splits sum.splits dest!: Suc.IH)
qed

lemma match_number_val:
  "match_number s = Some (v, r) \<Longrightarrow> (\<exists>i. v = PInt i) \<or> (\<exists>f. v = PFloat f)"
  by (auto simp: match_number_def Let_def split: list.splits if_splits prod.splits)

lemma scan_once_obj: "scan_once n s = Inr (PDict d, r) \<Longrightarrow> str_keys d"
proof (cases n)
  case 0
  assume "scan_once n s = Inr (PDict d, r)"
  with 0 show ?thesis by simp
next
  case (Suc m)
  assume a: "scan_once n s = Inr (PDict d, r)"
  then obtain c t where s: "s = c # t" using Suc by (cases s) auto
  from a show ?thesis
    unfolding Suc s scan_once.simps
    by (auto split: if_splits sum.splits option.splits
        dest: parse_object_obj parse_array_list match_number_val)
qed

lemma json_loads_obj: "json_loads s = Inr (PDict d) \<Longrightarrow> str_keys d"
  by (auto simp: json_loads_def split: if_splits sum.splits dest: scan_once_obj)



section \<open>Facts about update\<close>

lemma to_key_of_key [simp]: "to_key (of_key k) = Some k"
  by (cases k) auto


lemma merge_from_seq2_accepts:
  "snd (merge_from_seq2 d items) = None \<longleftrightarrow> list_all pair_like items"
  by (induction items arbitrary: d)
     (auto simp: pair_like_def split: option.splits list.splits)

lemma merge_from_seq2_merge:
  "list_all pair_like items \<Longrightarrow> \<exists>ps. \<forall>d. merge_from_seq2 d items = (dict_merge d ps, None)"
proof (induction items)
  case Nil
  have "\<forall>d. merge_from_seq2 d [] = (dict_merge d [], None)" by simp
  then show ?case by blast
next
  case (Cons item items)
  from Cons.prems obtain k x k' where
    item: "sequence_fast item = Some [k, x]" "to_key k = Some k'"
    by (auto simp: pair_like_def split: option.splits list.splits)
  from Cons obtain ps where ps: "\<forall>d. merge_from_seq2 d items = (dict_merge d ps, None)"
    by auto
  have "\<forall>d. merge_from_seq2 d (item # items) = (dict_merge d ((k', x) # ps), None)"
    by (simp add: item ps)
  then show ?case by blast
qed


lemma dict_update_accepts: "snd (dict_update d p) = None \<longleftrightarrow> update_accepts p"
  by (cases p) (auto simp: update_accepts_def merge_from_seq2_accepts)


lemma dict_update_overlay:
  assumes "dict_update d p = (d', None)"
  shows "dict_get d' k =
    (case dict_get (overlay_of p) k of Some x \<Rightarrow> Some x | None \<Rightarrow> dict_get d k)"
proof -
  have "\<exists>ps. d' = dict_merge d ps \<and> overlay_of p = dict_merge [] ps"
  proof (cases "\<exists>other. p = PDict other")
    case True
    with assms show ?thesis by (auto simp: overlay_of_def)
  next
    case False
    from assms have "update_accepts p"
      using dict_update_accepts [of d p] by simp
    with False obtain items where items: "sequence_fast p = Some items"
      and ok: "list_all pair_like items"
      by (cases p) (auto simp: update_accepts_def)
    from merge_from_seq2_merge [OF ok] obtain ps
      where ps: "\<And>d. merge_from_seq2 d items = (dict_merge d ps, None)" by blast
    from False items have "\<And>d. dict_update d p = merge_from_seq2 d items"
      by (cases p) auto
    with assms ps show ?thesis by (auto simp: overlay_of_def)
  qed
  then obtain ps where "d' = dict_merge d ps" "overlay_of p = dict_merge [] ps" by blast
  then show ?thesis using dict_get_dict_merge [of d ps k] by simp
qed

lemma str_ne [simp]: "str (c # s) \<noteq> []"
  by (simp add: str_def)

lemma struct_dict_steps:
  "struct_dict v =
     (if truthy (extra_json v) then
        (case json_loads (text_of (extra_json v)) of
           Inl e \<Rightarrow> Inl e
         | Inr p \<Rightarrow>
             (case dict_update (steps12 v) p of
                (d, Some e) \<Rightarrow> Inl e
              | (d, None) \<Rightarrow> Inr d))
      else Inr (steps12 v))"
proof (cases "truthy (result_type v)")
  case True
  then have "dict_update (base_dict v) (result_dict v) = (steps12 v, None)"
    by (simp add: steps12_def result_dict_def)
  with True show ?thesis by (simp add: struct_dict_def split: sum.splits)
next
  case False
  then have "steps12 v = base_dict v" by (simp add: steps12_def)
  with False show ?thesis by (simp add: struct_dict_def split: sum.splits)
qed

section \<open>The Action projector\<close>

text \<open>The definitions that evaluating the decoder on a concrete text unfolds.\<close>

lemmas json_eval =
  json_loads_def str_def starts_with_def skip_ws_def is_ws_def match_number_def is_digit_def
  digits_val_def match_fraction_def match_exponent_def decimal_def

text \<open>
  C1. For every action value whose \<open>action_type\<close> is not \<open>SearchAction\<close>, with
  \<open>result_type\<close> falsy and \<open>extra_json\<close> empty, \<open>struct_dict\<close> returns the dictionary
  whose \<open>@type\<close> is the action type and whose \<open>target\<close> is an \<open>EntryPoint\<close> object with
  \<open>urlTemplate\<close> the input target, \<open>inLanguage\<close> the input language and
  \<open>actionPlatform\<close> the three fixed platform URIs in their fixed order.
\<close>

theorem action_entry_point:
  assumes "action_type v \<noteq> str ''SearchAction''"
    and "\<not> truthy (result_type v)"
    and "\<not> truthy (extra_json v)"
  shows "struct_dict v =
    Inr [(KStr (str ''@type''), PStr (action_type v)),
         (KStr (str ''target''), PDict
            [(KStr (str ''@type''), PStr (str ''EntryPoint'')),
             (KStr (str ''urlTemplate''), PStr (target v)),
             (KStr (str ''inLanguage''), PStr (language v)),
             (KStr (str ''actionPlatform''), PList
                [PStr (str ''http://schema.org/DesktopWebPlatform''),
                 PStr (str ''http://schema.org/IOSPlatform''),
                 PStr (str ''http://schema.org/AndroidPlatform'')])])]"
  using assms by (simp add: struct_dict_steps steps12_def base_dict_def action_platforms_def)

text \<open>The theorem at a \<open>ReserveAction\<close> with an empty result type and an empty overlay.\<close>

theorem action_entry_point_witness:
  "action_type \<lparr>action_type = str ''ReserveAction'', target = str ''https://ex.com/book'',
      query = None, language = str ''en-US'', result_type = Some [],
      result_name = Some (str ''Book a table''), extra_json = Some []\<rparr> \<noteq> str ''SearchAction'' \<and>
   struct_dict \<lparr>action_type = str ''ReserveAction'', target = str ''https://ex.com/book'',
      query = None, language = str ''en-US'', result_type = Some [],
      result_name = Some (str ''Book a table''), extra_json = Some []\<rparr> =
    Inr [(KStr (str ''@type''), PStr (str ''ReserveAction'')),
         (KStr (str ''target''), PDict
            [(KStr (str ''@type''), PStr (str ''EntryPoint'')),
             (KStr (str ''urlTemplate''), PStr (str ''https://ex.com/book'')),
             (KStr (str ''inLanguage''), PStr (str ''en-US'')),
             (KStr (str ''actionPlatform''), PList
                [PStr (str ''http://schema.org/DesktopWebPlatform''),
                 PStr (str ''http://schema.org/IOSPlatform''),
                 PStr (str ''http://schema.org/AndroidPlatform'')])])]"
  using action_entry_point [of "\<lparr>action_type = str ''ReserveAction'',
      target = str ''https://ex.com/book'', query = None, language = str ''en-US'',
      result_type = Some [], result_name = Some (str ''Book a table''), extra_json = Some []\<rparr>"]
  by simp

text \<open>
  C4. For every action value whose \<open>action_type\<close> is \<open>SearchAction\<close>, with
  \<open>result_type\<close> falsy and \<open>extra_json\<close> empty, \<open>struct_dict\<close> returns exactly the
  three items \<open>@type\<close>, \<open>target\<close> and \<open>query\<close>: the target is the input string itself,
  not an \<open>EntryPoint\<close> object, and the query is the input query as it is, empty or
  \<open>None\<close> included.
\<close>

theorem search_action_literal:
  assumes "action_type v = str ''SearchAction''"
    and "\<not> truthy (result_type v)"
    and "\<not> truthy (extra_json v)"
  shows "struct_dict v =
    Inr [(KStr (str ''@type''), PStr (str ''SearchAction'')),
         (KStr (str ''target''), PStr (target v)),
         (KStr (str ''query''), opt_val (query v))]"
  using assms by (simp add: struct_dict_steps steps12_def base_dict_def)

text \<open>The theorem at a search action whose query is the empty string.\<close>

theorem search_action_literal_witness:
  "struct_dict \<lparr>action_type = str ''SearchAction'', target = str ''https://ex.com/?q={query}'',
      query = Some [], language = str ''en-US'', result_type = None,
      result_name = None, extra_json = None\<rparr> =
    Inr [(KStr (str ''@type''), PStr (str ''SearchAction'')),
         (KStr (str ''target''), PStr (str ''https://ex.com/?q={query}'')),
         (KStr (str ''query''), PStr [])]"
  using search_action_literal [of "\<lparr>action_type = str ''SearchAction'',
      target = str ''https://ex.com/?q={query}'', query = Some [], language = str ''en-US'',
      result_type = None, result_name = None, extra_json = None\<rparr>"]
  by simp

text \<open>
  C2. For every action value whose \<open>extra_json\<close> is non-empty and decodes to a JSON
  object, \<open>struct_dict\<close> returns the dictionary of Steps 1 and 2 (what it returns without
  \<open>extra_json\<close>) with the object's items merged in last: a key of the object has the
  object's value, whatever Steps 1 and 2 stored under it, and every other key keeps the value
  of Steps 1 and 2.
\<close>

theorem overlay_merged_last:
  assumes "truthy (extra_json v)"
    and "json_loads (text_of (extra_json v)) = Inr (PDict kvs)"
  shows "struct_dict (v\<lparr>extra_json := None\<rparr>) = Inr (steps12 v) \<and>
         struct_dict v = Inr (dict_merge (steps12 v) kvs) \<and>
         (\<forall>k. dict_get (dict_merge (steps12 v) kvs) k =
                (case dict_get kvs k of Some x \<Rightarrow> Some x | None \<Rightarrow> dict_get (steps12 v) k))"
proof (intro conjI allI)
  have "steps12 (v\<lparr>extra_json := None\<rparr>) = steps12 v"
    by (simp add: steps12_def base_dict_def)
  then show "struct_dict (v\<lparr>extra_json := None\<rparr>) = Inr (steps12 v)"
    by (simp add: struct_dict_steps)
  show "struct_dict v = Inr (dict_merge (steps12 v) kvs)"
    using assms by (simp add: struct_dict_steps)
  fix k
  from assms(2) have "str_keys kvs" by (rule json_loads_obj)
  then have "dict_get (dict_merge [] kvs) k = dict_get kvs k"
    by (rule dict_merge_str_keys)
  then show "dict_get (dict_merge (steps12 v) kvs) k =
      (case dict_get kvs k of Some x \<Rightarrow> Some x | None \<Rightarrow> dict_get (steps12 v) k)"
    using dict_get_dict_merge [of "steps12 v" kvs k] by simp
qed

text \<open>The theorem at a search action whose overlay replaces \<open>query\<close>.\<close>

theorem overlay_merged_last_witness:
  \<open>struct_dict \<lparr>action_type = str ''SearchAction'', target = str ''https://ex.com/?q={query}'',
      query = Some (str ''required name=query''), language = str ''en-US'',
      result_type = None, result_name = None,
      extra_json = Some (str ''{"query": "override"}'')\<rparr> =
    Inr [(KStr (str ''@type''), PStr (str ''SearchAction'')),
         (KStr (str ''target''), PStr (str ''https://ex.com/?q={query}'')),
         (KStr (str ''query''), PStr (str ''override''))]\<close>
proof -
  let ?v = \<open>\<lparr>action_type = str ''SearchAction'', target = str ''https://ex.com/?q={query}'',
      query = Some (str ''required name=query''), language = str ''en-US'',
      result_type = None, result_name = None,
      extra_json = Some (str ''{"query": "override"}'')\<rparr>\<close>
  have t: "truthy (extra_json ?v)" by simp
  have p: "json_loads (text_of (extra_json ?v)) =
      Inr (PDict [(KStr (str ''query''), PStr (str ''override''))])"
    by (simp add: json_eval)
  from overlay_merged_last [OF t p]
  have "struct_dict ?v =
      Inr (dict_merge (steps12 ?v) [(KStr (str ''query''), PStr (str ''override''))])"
    by blast
  then show ?thesis by (simp add: steps12_def base_dict_def)
qed

text \<open>
  C5. For every action value for which \<open>struct_dict\<close> returns a dictionary, and whose
  \<open>extra_json\<close> does not itself bring a \<open>result\<close> key: the dictionary has the key
  \<open>result\<close> exactly when \<open>result_type\<close> is truthy, and its value is then the dictionary
  of \<open>@type\<close>, the result type, and \<open>name\<close>, the result name, empty or not; with a
  falsy \<open>result_type\<close> there is no \<open>result\<close> key, whatever the result name.
\<close>

theorem result_key:
  assumes "struct_dict v = Inr d"
    and "\<not> supplies v (KStr (str ''result''))"
  shows "dict_get d (KStr (str ''result'')) =
    (if truthy (result_type v)
     then Some (PDict [(KStr (str ''@type''), opt_val (result_type v)),
                       (KStr (str ''name''), opt_val (result_name v))])
     else None)"
proof -
  have base: "dict_get (base_dict v) (KStr (str ''result'')) = None"
    by (simp add: base_dict_def)
  have s12: "dict_get (steps12 v) (KStr (str ''result'')) =
    (if truthy (result_type v)
     then Some (PDict [(KStr (str ''@type''), opt_val (result_type v)),
                       (KStr (str ''name''), opt_val (result_name v))])
     else None)"
    by (simp add: steps12_def dict_get_dict_set base)
  show ?thesis
  proof (cases "truthy (extra_json v)")
    case False
    with assms(1) have "d = steps12 v" by (simp add: struct_dict_steps)
    with s12 show ?thesis by simp
  next
    case True
    with assms(1) obtain p where p: "json_loads (text_of (extra_json v)) = Inr p"
      and u: "dict_update (steps12 v) p = (d, None)"
      by (auto simp: struct_dict_steps split: sum.splits prod.splits option.splits)
    from assms(2) True p have "dict_get (overlay_of p) (KStr (str ''result'')) = None"
      by (simp add: supplies_def)
    with dict_update_overlay [OF u, of "KStr (str ''result'')"] s12 show ?thesis by simp
  qed
qed

text \<open>The theorem at the reservation example of the specification.\<close>

theorem result_key_witness:
  \<open>struct_dict \<lparr>action_type = str ''ReserveAction'', target = str ''https://ex.com/book'',
      query = None, language = str ''en-US'', result_type = Some (str ''Reservation''),
      result_name = Some (str ''Book a table''), extra_json = Some []\<rparr> =
    Inr [(KStr (str ''@type''), PStr (str ''ReserveAction'')),
         (KStr (str ''target''), PDict
            [(KStr (str ''@type''), PStr (str ''EntryPoint'')),
             (KStr (str ''urlTemplate''), PStr (str ''https://ex.com/book'')),
             (KStr (str ''inLanguage''), PStr (str ''en-US'')),
             (KStr (str ''actionPlatform''), PList
                [PStr (str ''http://schema.org/DesktopWebPlatform''),
                 PStr (str ''http://schema.org/IOSPlatform''),
                 PStr (str ''http://schema.org/AndroidPlatform'')])]),
         (KStr (str ''result''), PDict
            [(KStr (str ''@type''), PStr (str ''Reservation'')),
             (KStr (str ''name''), PStr (str ''Book a table''))])] \<and>
   dict_get
     [(KStr (str ''@type''), PStr (str ''ReserveAction'')),
      (KStr (str ''target''), PDict
         [(KStr (str ''@type''), PStr (str ''EntryPoint'')),
          (KStr (str ''urlTemplate''), PStr (str ''https://ex.com/book'')),
          (KStr (str ''inLanguage''), PStr (str ''en-US'')),
          (KStr (str ''actionPlatform''), PList
             [PStr (str ''http://schema.org/DesktopWebPlatform''),
              PStr (str ''http://schema.org/IOSPlatform''),
              PStr (str ''http://schema.org/AndroidPlatform'')])]),
      (KStr (str ''result''), PDict
         [(KStr (str ''@type''), PStr (str ''Reservation'')),
          (KStr (str ''name''), PStr (str ''Book a table''))])]
     (KStr (str ''result'')) =
   Some (PDict [(KStr (str ''@type''), PStr (str ''Reservation'')),
                (KStr (str ''name''), PStr (str ''Book a table''))])\<close>
proof -
  let ?v = \<open>\<lparr>action_type = str ''ReserveAction'', target = str ''https://ex.com/book'',
      query = None, language = str ''en-US'', result_type = Some (str ''Reservation''),
      result_name = Some (str ''Book a table''), extra_json = Some []\<rparr>\<close>
  have sd: "struct_dict ?v =
    Inr [(KStr (str ''@type''), PStr (str ''ReserveAction'')),
         (KStr (str ''target''), PDict
            [(KStr (str ''@type''), PStr (str ''EntryPoint'')),
             (KStr (str ''urlTemplate''), PStr (str ''https://ex.com/book'')),
             (KStr (str ''inLanguage''), PStr (str ''en-US'')),
             (KStr (str ''actionPlatform''), PList
                [PStr (str ''http://schema.org/DesktopWebPlatform''),
                 PStr (str ''http://schema.org/IOSPlatform''),
                 PStr (str ''http://schema.org/AndroidPlatform'')])]),
         (KStr (str ''result''), PDict
            [(KStr (str ''@type''), PStr (str ''Reservation'')),
             (KStr (str ''name''), PStr (str ''Book a table''))])]"
    by (simp add: struct_dict_steps steps12_def base_dict_def action_platforms_def)
  have ns: "\<not> supplies ?v (KStr (str ''result''))"
    by (simp add: supplies_def)
  from result_key [OF sd ns] sd show ?thesis by simp
qed






text \<open>
  C7. \<open>struct_dict\<close> either raises or returns the whole dictionary: a returned
  dictionary is the one of Steps 1 and 2 when \<open>extra_json\<close> is empty, and otherwise has
  every item of the decoded overlay on top of Steps 1 and 2. When the decoder fails, or
  \<open>update\<close> stops at an element it cannot take, the caller gets the exception and no
  dictionary, although \<open>update\<close> may by then have stored some of the items.
\<close>

theorem no_partial_result:
  "(case struct_dict v of
      Inl e \<Rightarrow> True
    | Inr d \<Rightarrow>
        if truthy (extra_json v) then
          (\<exists>p. json_loads (text_of (extra_json v)) = Inr p \<and> update_accepts p \<and>
               (\<forall>k. dict_get d k =
                  (case dict_get (overlay_of p) k of
                     Some x \<Rightarrow> Some x
                   | None \<Rightarrow> dict_get (steps12 v) k)))
        else d = steps12 v) \<and>
   (\<forall>p d' e. truthy (extra_json v) \<and> json_loads (text_of (extra_json v)) = Inr p \<and>
              dict_update (steps12 v) p = (d', Some e) \<longrightarrow> struct_dict v = Inl e) \<and>
   (\<forall>e. truthy (extra_json v) \<and> json_loads (text_of (extra_json v)) = Inl e \<longrightarrow>
        struct_dict v = Inl e)"
proof (intro conjI allI impI)
  show "case struct_dict v of
      Inl e \<Rightarrow> True
    | Inr d \<Rightarrow>
        if truthy (extra_json v) then
          (\<exists>p. json_loads (text_of (extra_json v)) = Inr p \<and> update_accepts p \<and>
               (\<forall>k. dict_get d k =
                  (case dict_get (overlay_of p) k of
                     Some x \<Rightarrow> Some x
                   | None \<Rightarrow> dict_get (steps12 v) k)))
        else d = steps12 v"
  proof (cases "struct_dict v")
    case (Inl e)
    then show ?thesis by simp
  next
    case (Inr d)
    show ?thesis
    proof (cases "truthy (extra_json v)")
      case False
      with Inr show ?thesis by (simp add: struct_dict_steps)
    next
      case True
      with Inr obtain p where p: "json_loads (text_of (extra_json v)) = Inr p"
        and u: "dict_update (steps12 v) p = (d, None)"
        by (auto simp: struct_dict_steps split: sum.splits prod.splits option.splits)
      from u have "update_accepts p"
        using dict_update_accepts [of "steps12 v" p] by simp
      with Inr True p dict_update_overlay [OF u] show ?thesis by simp
    qed
  qed
next
  fix p d' e
  assume "truthy (extra_json v) \<and> json_loads (text_of (extra_json v)) = Inr p \<and>
              dict_update (steps12 v) p = (d', Some e)"
  then show "struct_dict v = Inl e" by (simp add: struct_dict_steps)
next
  fix e
  assume "truthy (extra_json v) \<and> json_loads (text_of (extra_json v)) = Inl e"
  then show "struct_dict v = Inl e" by (simp add: struct_dict_steps)
qed

text \<open>
  The theorem at \<open>[["a", 1], 5]\<close>: \<open>update\<close> has stored \<open>a\<close> when it meets
  \<open>5\<close>, and \<open>struct_dict\<close> raises TypeError.
\<close>

theorem no_partial_result_witness:
  \<open>dict_update
     (steps12 \<lparr>action_type = str ''SearchAction'', target = str ''t'',
        query = None, language = str ''en-US'', result_type = None, result_name = None,
        extra_json = Some (str ''[["a", 1], 5]'')\<rparr>)
     (PList [PList [PStr (str ''a''), PInt 1], PInt 5]) =
     ([(KStr (str ''@type''), PStr (str ''SearchAction'')),
       (KStr (str ''target''), PStr (str ''t'')),
       (KStr (str ''query''), PNone),
       (KStr (str ''a''), PInt 1)], Some TypeError) \<and>
   struct_dict \<lparr>action_type = str ''SearchAction'', target = str ''t'',
      query = None, language = str ''en-US'', result_type = None, result_name = None,
      extra_json = Some (str ''[["a", 1], 5]'')\<rparr> = Inl TypeError\<close>
proof -
  let ?v = \<open>\<lparr>action_type = str ''SearchAction'', target = str ''t'',
      query = None, language = str ''en-US'', result_type = None, result_name = None,
      extra_json = Some (str ''[["a", 1], 5]'')\<rparr>\<close>
  have t: "truthy (extra_json ?v)" by simp
  have p: "json_loads (text_of (extra_json ?v)) =
      Inr (PList [PList [PStr (str ''a''), PInt 1], PInt 5])"
    by (simp add: json_eval)
  have u: "dict_update (steps12 ?v) (PList [PList [PStr (str ''a''), PInt 1], PInt 5]) =
     ([(KStr (str ''@type''), PStr (str ''SearchAction'')),
       (KStr (str ''target''), PStr (str ''t'')),
       (KStr (str ''query''), PNone),
       (KStr (str ''a''), PInt 1)], Some TypeError)"
    by (simp add: steps12_def base_dict_def)
  from no_partial_result [of ?v] t p u have "struct_dict ?v = Inl TypeError" by blast
  with u show ?thesis by simp
qed

text \<open>
  C9, as stated, fails in its parenthesis: for a \<open>SearchAction\<close> whose \<open>extra_json\<close>
  is \<open>{"inLanguage": "fr"}\<close>, the returned dictionary has an \<open>inLanguage\<close> key.
\<close>

theorem in_language_counterexample:
  \<open>struct_dict \<lparr>action_type = str ''SearchAction'', target = str ''t'',
      query = None, language = str ''en-US'', result_type = None, result_name = None,
      extra_json = Some (str ''{"inLanguage": "fr"}'')\<rparr> =
    Inr [(KStr (str ''@type''), PStr (str ''SearchAction'')),
         (KStr (str ''target''), PStr (str ''t'')),
         (KStr (str ''query''), PNone),
         (KStr (str ''inLanguage''), PStr (str ''fr''))]\<close>
proof -
  have p: \<open>json_loads (str ''{"inLanguage": "fr"}'') =
      Inr (PDict [(KStr (str ''inLanguage''), PStr (str ''fr''))])\<close>
    by (simp add: json_eval)
  show ?thesis
    by (simp add: struct_dict_steps p steps12_def base_dict_def)
qed

text \<open>
  C9, amended. With every other field fixed, \<open>extra_json\<close> included: if \<open>action_type\<close>
  is not \<open>SearchAction\<close>, changing \<open>query\<close> never changes what \<open>struct_dict\<close> returns
  or raises; if it is \<open>SearchAction\<close>, changing \<open>language\<close> never does, and the
  returned dictionary has no \<open>inLanguage\<close> key unless \<open>extra_json\<close> itself brings one.
\<close>

theorem unread_fields:
  "(action_type v \<noteq> str ''SearchAction'' \<longrightarrow> struct_dict (v\<lparr>query := q\<rparr>) = struct_dict v) \<and>
   (action_type v = str ''SearchAction'' \<longrightarrow>
      struct_dict (v\<lparr>language := l\<rparr>) = struct_dict v) \<and>
   (action_type v = str ''SearchAction'' \<and> struct_dict v = Inr d \<and>
    \<not> supplies v (KStr (str ''inLanguage'')) \<longrightarrow>
      dict_get d (KStr (str ''inLanguage'')) = None)"
proof (intro conjI impI)
  assume "action_type v \<noteq> str ''SearchAction''"
  then have "steps12 (v\<lparr>query := q\<rparr>) = steps12 v"
    by (simp add: steps12_def base_dict_def)
  then show "struct_dict (v\<lparr>query := q\<rparr>) = struct_dict v"
    by (simp add: struct_dict_steps split: sum.splits)
next
  assume "action_type v = str ''SearchAction''"
  then have "steps12 (v\<lparr>language := l\<rparr>) = steps12 v"
    by (simp add: steps12_def base_dict_def)
  then show "struct_dict (v\<lparr>language := l\<rparr>) = struct_dict v"
    by (simp add: struct_dict_steps split: sum.splits)
next
  assume a: "action_type v = str ''SearchAction'' \<and> struct_dict v = Inr d \<and>
    \<not> supplies v (KStr (str ''inLanguage''))"
  then have s12: "dict_get (steps12 v) (KStr (str ''inLanguage'')) = None"
    by (simp add: steps12_def base_dict_def dict_get_dict_set)
  show "dict_get d (KStr (str ''inLanguage'')) = None"
  proof (cases "truthy (extra_json v)")
    case False
    with a have "d = steps12 v" by (simp add: struct_dict_steps)
    with s12 show ?thesis by simp
  next
    case True
    with a obtain p where p: "json_loads (text_of (extra_json v)) = Inr p"
      and u: "dict_update (steps12 v) p = (d, None)"
      by (auto simp: struct_dict_steps split: sum.splits prod.splits option.splits)
    from a True p have "dict_get (overlay_of p) (KStr (str ''inLanguage'')) = None"
      by (simp add: supplies_def)
    with dict_update_overlay [OF u, of "KStr (str ''inLanguage'')"] s12 show ?thesis by simp
  qed
qed

text \<open>The theorem at a search action with two languages and at an order action with two queries.\<close>

theorem unread_fields_witness:
  \<open>struct_dict \<lparr>action_type = str ''SearchAction'', target = str ''t'',
      query = Some (str ''q''), language = str ''fr-FR'', result_type = None,
      result_name = None, extra_json = Some (str ''{"name": "n"}'')\<rparr> =
   struct_dict \<lparr>action_type = str ''SearchAction'', target = str ''t'',
      query = Some (str ''q''), language = str ''en-US'', result_type = None,
      result_name = None, extra_json = Some (str ''{"name": "n"}'')\<rparr> \<and>
   struct_dict \<lparr>action_type = str ''OrderAction'', target = str ''t'',
      query = Some (str ''q''), language = str ''en-US'', result_type = None,
      result_name = None, extra_json = None\<rparr> =
   struct_dict \<lparr>action_type = str ''OrderAction'', target = str ''t'',
      query = None, language = str ''en-US'', result_type = None,
      result_name = None, extra_json = None\<rparr>\<close>
  using unread_fields [of \<open>\<lparr>action_type = str ''SearchAction'', target = str ''t'',
      query = Some (str ''q''), language = str ''en-US'', result_type = None,
      result_name = None, extra_json = Some (str ''{"name": "n"}'')\<rparr>\<close> _ \<open>str ''fr-FR''\<close>]
    unread_fields [of \<open>\<lparr>action_type = str ''OrderAction'', target = str ''t'',
      query = None, language = str ''en-US'', result_type = None,
      result_name = None, extra_json = None\<rparr>\<close> \<open>Some (str ''q'')\<close>]
  by simp

section \<open>The OpeningHours projector\<close>

text \<open>
  C6, as stated, fails for \<open>opens\<close> and \<open>closes\<close>: for an entry that opens at nine,
  the value under \<open>opens\<close> is the time of day itself, not the string \<open>09:00\<close>.
\<close>

theorem opens_not_string_counterexample:
  "dict_get
     (open_hours_struct_dict \<lparr>days = [str ''Monday''],
        start_time = \<lparr>hour = 9, minute = 0, second = 0, microsecond = 0\<rparr>,
        end_time = \<lparr>hour = 17, minute = 30, second = 0, microsecond = 0\<rparr>\<rparr>)
     (KStr (str ''opens'')) =
     Some (PTime \<lparr>hour = 9, minute = 0, second = 0, microsecond = 0\<rparr>) \<and>
   format_H_i \<lparr>hour = 9, minute = 0, second = 0, microsecond = 0\<rparr> = str ''09:00'' \<and>
   PTime \<lparr>hour = 9, minute = 0, second = 0, microsecond = 0\<rparr> \<noteq> PStr (str ''09:00'')"
  by (simp add: open_hours_struct_dict_def format_H_i_def two_digits_def str_def)

text \<open>
  C6, amended. For every open-hours value, \<open>struct_dict\<close> is the dictionary of the four
  keys \<open>@type\<close>, \<open>dayOfWeek\<close>, \<open>opens\<close> and \<open>closes\<close>, in this order:
  \<open>@type\<close> is \<open>OpeningHoursSpecification\<close>, \<open>dayOfWeek\<close> is the input sequence of
  days as it is (same order, duplicates kept), and \<open>opens\<close> and \<open>closes\<close> are the start
  and end times of day themselves, not formatted.
\<close>

theorem opening_hours_dict:
  "map fst (open_hours_struct_dict v) =
     [KStr (str ''@type''), KStr (str ''dayOfWeek''), KStr (str ''opens''), KStr (str ''closes'')] \<and>
   dict_get (open_hours_struct_dict v) (KStr (str ''@type'')) =
     Some (PStr (str ''OpeningHoursSpecification'')) \<and>
   dict_get (open_hours_struct_dict v) (KStr (str ''dayOfWeek'')) =
     Some (PList (map PStr (days v))) \<and>
   dict_get (open_hours_struct_dict v) (KStr (str ''opens'')) = Some (PTime (start_time v)) \<and>
   dict_get (open_hours_struct_dict v) (KStr (str ''closes'')) = Some (PTime (end_time v))"
  by (simp add: open_hours_struct_dict_def)

text \<open>The theorem at a selection that repeats a day out of week order.\<close>

theorem opening_hours_dict_witness:
  "dict_get
     (open_hours_struct_dict \<lparr>days = [str ''Sunday'', str ''Monday'', str ''Sunday''],
        start_time = \<lparr>hour = 22, minute = 0, second = 0, microsecond = 0\<rparr>,
        end_time = \<lparr>hour = 2, minute = 0, second = 0, microsecond = 0\<rparr>\<rparr>)
     (KStr (str ''dayOfWeek'')) =
     Some (PList [PStr (str ''Sunday''), PStr (str ''Monday''), PStr (str ''Sunday'')])"
  using opening_hours_dict [of "\<lparr>days = [str ''Sunday'', str ''Monday'', str ''Sunday''],
        start_time = \<lparr>hour = 22, minute = 0, second = 0, microsecond = 0\<rparr>,
        end_time = \<lparr>hour = 2, minute = 0, second = 0, microsecond = 0\<rparr>\<rparr>"]
  by simp

section \<open>The multi-choice field\<close>

lemma valid_value_iff: "valid_value f tok \<longleftrightarrow> tok \<in> fst ` set (choices f)"
  by (force simp: valid_value_def list_ex_iff)

lemma validate_tokens_iff:
  "validate_tokens f toks =
     (if \<exists>t \<in> set toks. t \<notin> fst ` set (choices f) then Inl ValidationError else Inr ())"
  by (induction toks) (simp_all add: valid_value_iff)

text \<open>
  C8. For every selection, \<open>validate\<close> fails with a ValidationError if and only if the
  field is required and the selection is empty, or some selected token is not among the
  configured choices; otherwise it succeeds, and being a function it changes nothing. For the
  \<open>days\<close> field of \<open>OpenHoursBlock\<close>, which is required, the choices are the seven
  weekday names.
\<close>

theorem validate_fails_iff:
  "validate f selection =
     (if (required f \<and> selection = []) \<or> (\<exists>t \<in> set selection. t \<notin> fst ` set (choices f))
      then Inl ValidationError else Inr ()) \<and>
   validate days_field selection =
     (if selection = [] \<or> (\<exists>t \<in> set selection. t \<notin> set weekdays)
      then Inl ValidationError else Inr ())"
proof -
  have "fst ` set (choices days_field) = set weekdays"
    by (force simp: days_field_def MultiSelectBlock_def)
  moreover have "required days_field"
    by (simp add: days_field_def MultiSelectBlock_def)
  ultimately show ?thesis
    by (simp add: validate_def validate_tokens_iff)
qed

text \<open>The theorem at three selections for the \<open>days\<close> field.\<close>

theorem validate_fails_iff_witness:
  "validate days_field [str ''Monday'', str ''Funday''] = Inl ValidationError \<and>
   validate days_field [] = Inl ValidationError \<and>
   validate days_field [str ''Saturday'', str ''Sunday''] = Inr ()"
  using validate_fails_iff [of days_field "[str ''Monday'', str ''Funday'']", THEN conjunct2]
    validate_fails_iff [of days_field "[]", THEN conjunct2]
    validate_fails_iff [of days_field "[str ''Saturday'', str ''Sunday'']", THEN conjunct2]
  by (simp add: weekdays_def)

end
